theory Spec2Isabelle
  imports Complex_Main
begin

section \<open>JavaScript array and string primitives used by the services\<close>

text \<open>
  \<^verbatim>\<open>Array.prototype.slice(start, end)\<close> and \<^verbatim>\<open>String.prototype.slice\<close>: a negative
  index counts from the end, both indices are clamped to the length, and an omitted
  \<^verbatim>\<open>end\<close> is the length.
\<close>

definition slice :: "int \<Rightarrow> int option \<Rightarrow> 'a list \<Rightarrow> 'a list" where
  "slice start stop xs =
     (let len = int (length xs);
          k = (if start < 0 then max (len + start) 0 else min start len);
          fin = (case stop of
                   None \<Rightarrow> len
                 | Some e \<Rightarrow> if e < 0 then max (len + e) 0 else min e len)
      in take (nat (fin - k)) (drop (nat k) xs))"

section \<open>Session memory (memoryService.ts)\<close>

datatype role = User | Assistant

record ConversationMessage =
  msg_role :: role
  msg_content :: string
  msg_timestamp :: string

record SessionMemory =
  session_id :: string
  messages :: "ConversationMessage list"
  created_at :: string
  updated_at :: string

type_synonym sessions = "string \<rightharpoonup> SessionMemory"

definition MAX_MESSAGES_PER_SESSION :: nat where
  "MAX_MESSAGES_PER_SESSION = 20"

text \<open>
  \<^verbatim>\<open>addMessage\<close>: the clock reading \<^verbatim>\<open>new Date().toISOString()\<close> is the parameter
  \<open>now\<close>; the session is created when absent, the message pushed, and the list cut
  to its last 20 entries when longer.
\<close>

definition addMessage :: "string \<Rightarrow> sessions \<Rightarrow> string \<Rightarrow> role \<Rightarrow> string \<Rightarrow> sessions" where
  "addMessage now ss sessionId r c =
     (let message = \<lparr>msg_role = r, msg_content = c, msg_timestamp = now\<rparr>;
          session = (case ss sessionId of
                       None \<Rightarrow> \<lparr>session_id = sessionId, messages = [],
                                 created_at = now, updated_at = now\<rparr>
                     | Some s \<Rightarrow> s);
          pushed = session\<lparr>messages := messages session @ [message], updated_at := now\<rparr>;
          capped = (if length (messages pushed) > MAX_MESSAGES_PER_SESSION
                    then pushed\<lparr>messages :=
                           slice (- int MAX_MESSAGES_PER_SESSION) None (messages pushed)\<rparr>
                    else pushed)
      in ss(sessionId \<mapsto> capped))"

definition getSessionHistory :: "sessions \<Rightarrow> string \<Rightarrow> ConversationMessage list" where
  "getSessionHistory ss sessionId =
     (case ss sessionId of Some session \<Rightarrow> messages session | None \<Rightarrow> [])"

definition getRecentMessages :: "sessions \<Rightarrow> string \<Rightarrow> int \<Rightarrow> ConversationMessage list" where
  "getRecentMessages ss sessionId limit = slice (- limit) None (getSessionHistory ss sessionId)"

definition clearSession :: "sessions \<Rightarrow> string \<Rightarrow> sessions" where
  "clearSession ss sessionId = ss(sessionId := None)"

text \<open>The mutating operations of the service, and a run of them from a given store.\<close>

datatype mem_op = AddMessage string string role string | ClearSession string

fun apply_op :: "sessions \<Rightarrow> mem_op \<Rightarrow> sessions" where
  "apply_op ss (AddMessage now sessionId r c) = addMessage now ss sessionId r c"
| "apply_op ss (ClearSession sessionId) = clearSession ss sessionId"

definition capped_store :: "sessions \<Rightarrow> bool" where
  "capped_store ss = (\<forall>sid s. ss sid = Some s \<longrightarrow> length (messages s) \<le> 20)"

text \<open>Appending a list of (clock, role, content) entries to one session, in order.\<close>

fun addAll :: "sessions \<Rightarrow> string \<Rightarrow> (string \<times> role \<times> string) list \<Rightarrow> sessions" where
  "addAll ss sessionId [] = ss"
| "addAll ss sessionId ((now, r, c) # rest) = addAll (addMessage now ss sessionId r c) sessionId rest"

definition mk_message :: "string \<times> role \<times> string \<Rightarrow> ConversationMessage" where
  "mk_message e = (case e of (now, r, c) \<Rightarrow> \<lparr>msg_role = r, msg_content = c, msg_timestamp = now\<rparr>)"

section \<open>Vector index (vectorStore.ts)\<close>

text \<open>
  A thrown \<^verbatim>\<open>Error\<close> is the left summand of a result, with its message. A
  similarity score is a real number here, where the code computes an IEEE double: the
  scores serve to rank the results, and nothing below is stated about the value that the
  double arithmetic of \<^verbatim>\<open>cosineSimilarity\<close> returns (its rounding, its overflow to
  infinity and its NaN are outside this model).
\<close>

datatype error = Error string

record DocMetadata =
  filename :: string
  title :: "string option"
  author :: "string option"
  source :: "string option"
  chunk_index :: nat

record Document =
  doc_id :: string
  doc_content :: string
  doc_metadata :: DocMetadata
  doc_embedding :: "real list option"

record SearchResult =
  document :: Document
  similarity :: real

text \<open>
  \<^verbatim>\<open>cosineSimilarity\<close>: the loop over \<^verbatim>\<open>i < a.length\<close> accumulates the dot product
  and the two squared norms from 0, left to right.
\<close>

definition cosine_step :: "real \<times> real \<times> real \<Rightarrow> real \<times> real \<Rightarrow> real \<times> real \<times> real" where
  "cosine_step acc p =
     (case acc of (dotProduct, normA, normB) \<Rightarrow>
        (case p of (x, y) \<Rightarrow> (dotProduct + x * y, normA + x * x, normB + y * y)))"

definition cosineSimilarity :: "real list \<Rightarrow> real list \<Rightarrow> error + real" where
  "cosineSimilarity a b =
     (if length a \<noteq> length b then Inl (Error ''Vectors must have the same length'')
      else (case foldl cosine_step (0, 0, 0) (zip a b) of
              (dotProduct, normA, normB) \<Rightarrow>
                (let denominator = sqrt normA * sqrt normB
                 in if denominator = 0 then Inr 0 else Inr (dotProduct / denominator))))"

text \<open>
  \<^verbatim>\<open>String.prototype.includes\<close>: the needle occurs as a contiguous substring.
\<close>

fun str_includes :: "string \<Rightarrow> string \<Rightarrow> bool" where
  "str_includes [] needle = (needle = [])"
| "str_includes (h # hs) needle = (take (length needle) (h # hs) = needle \<or> str_includes hs needle)"

text \<open>
  \<^verbatim>\<open>toLowerCase\<close> on the ASCII letters; the bytes of any other character are left
  as they are, so that a cased letter beyond ASCII is not lowered.
\<close>

definition lower_char :: "char \<Rightarrow> char" where
  "lower_char c =
     (let n = (of_char c :: nat) in if 65 \<le> n \<and> n \<le> 90 then char_of (n + 32) else c)"

definition toLowerCase :: "string \<Rightarrow> string" where
  "toLowerCase s = map lower_char s"

text \<open>
  \<^verbatim>\<open>split(/\\s+/)\<close> as the source writes the pattern in vectorStore.ts: a backslash
  followed by one or more letters s is the separator. The flag says that the scan is
  inside a separator, whose further letters s are skipped; \<open>cur\<close> is the current
  piece, reversed.
\<close>

fun split_bs :: "bool \<Rightarrow> string \<Rightarrow> string \<Rightarrow> string list" where
  "split_bs insep [] cur = [rev cur]"
| "split_bs insep (c # cs) cur =
     (if insep \<and> c = CHR ''s'' then split_bs True cs cur
      else if c = CHR 0x5C \<and> (case cs of [] \<Rightarrow> False | d # _ \<Rightarrow> d = CHR ''s'')
           then rev cur # split_bs True cs []
           else split_bs False cs (c # cur))"

definition simpleTextSimilarity :: "string \<Rightarrow> string \<Rightarrow> real" where
  "simpleTextSimilarity query text =
     (let queryWords = split_bs False query [];
          textWords = split_bs False text [];
          matches = length (filter (\<lambda>word.
                      list_ex (\<lambda>textWord. str_includes textWord word \<or> str_includes word textWord) textWords)
                      queryWords)
      in real matches / real (length queryWords))"

text \<open>
  \<^verbatim>\<open>results.sort((a, b) => b.similarity - a.similarity)\<close>: the sort of an array is
  stable, so it is the stable sort by descending similarity.
\<close>

definition sort_results :: "SearchResult list \<Rightarrow> SearchResult list" where
  "sort_results rs = sort_key (\<lambda>r. - similarity r) rs"

definition fallbackTextSearch :: "Document list \<Rightarrow> string \<Rightarrow> nat \<Rightarrow> SearchResult list" where
  "fallbackTextSearch documents query topK =
     (let queryLower = toLowerCase query;
          results = map (\<lambda>doc. \<lparr>document = doc,
                      similarity = simpleTextSimilarity queryLower (toLowerCase (doc_content doc))\<rparr>)
                      documents
      in slice 0 (Some (int topK)) (sort_results results))"

text \<open>
  The scoring loop of \<^verbatim>\<open>searchSimilar\<close>: a document with an embedding is scored by
  cosine similarity, whose error leaves the loop; a document without one by the lexical
  heuristic.
\<close>

definition score_document :: "real list \<Rightarrow> string \<Rightarrow> Document \<Rightarrow> error + real" where
  "score_document queryEmbedding query doc =
     (case doc_embedding doc of
        Some e \<Rightarrow> cosineSimilarity queryEmbedding e
      | None \<Rightarrow> Inr (simpleTextSimilarity (toLowerCase query) (toLowerCase (doc_content doc))))"

fun score_documents :: "real list \<Rightarrow> string \<Rightarrow> Document list \<Rightarrow> error + SearchResult list" where
  "score_documents queryEmbedding query [] = Inr []"
| "score_documents queryEmbedding query (doc # docs) =
     (case score_document queryEmbedding query doc of
        Inl err \<Rightarrow> Inl err
      | Inr s \<Rightarrow>
          (case score_documents queryEmbedding query docs of
             Inl err \<Rightarrow> Inl err
           | Inr results \<Rightarrow> Inr (\<lparr>document = doc, similarity = s\<rparr> # results)))"

text \<open>
  \<^verbatim>\<open>searchSimilar\<close>. The embedding capability is the function \<open>generateEmbedding\<close>; the second
  component of the result lists the texts it was called on, in order. \<open>topK\<close> is a
  count. Any error inside the \<^verbatim>\<open>try\<close> block falls back to the lexical search.
\<close>

definition searchSimilar ::
  "(string \<Rightarrow> error + real list) \<Rightarrow> Document list \<Rightarrow> string \<Rightarrow> nat \<Rightarrow>
     SearchResult list \<times> string list" where
  "searchSimilar generateEmbedding documents query topK =
     (if length documents = 0 then ([], [])
      else (case generateEmbedding query of
              Inl err \<Rightarrow> (fallbackTextSearch documents query topK, [query])
            | Inr queryEmbedding \<Rightarrow>
                (case score_documents queryEmbedding query documents of
                   Inl err \<Rightarrow> (fallbackTextSearch documents query topK, [query])
                 | Inr results \<Rightarrow> (slice 0 (Some (int topK)) (sort_results results), [query]))))"

section \<open>Regular expressions of the plugins\<close>

text \<open>
  The patterns of the plugins are kept as regular expressions and run by a backtracking
  matcher with the priorities of a JavaScript engine: a quantifier is greedy, an
  alternation tries its left branch first. \<open>rx_match r s c\<close> lists, in that order of
  priority, every way \<open>r\<close> matches a prefix of \<open>s\<close>, each as the rest of the
  input with the capture groups set so far.
\<close>

datatype rx = Cls "char \<Rightarrow> bool" | Seq rx rx | Alt rx rx | Star rx | Grp nat rx | Eps

type_synonym caps = "(nat \<times> string) list"

fun rx_match :: "rx \<Rightarrow> string \<Rightarrow> caps \<Rightarrow> (string \<times> caps) list" where
  "rx_match (Cls p) s c = (case s of [] \<Rightarrow> [] | x # xs \<Rightarrow> if p x then [(xs, c)] else [])"
| "rx_match Eps s c = [(s, c)]"
| "rx_match (Seq a b) s c = concat (map (\<lambda>m. rx_match b (fst m) (snd m)) (rx_match a s c))"
| "rx_match (Alt a b) s c = rx_match a s c @ rx_match b s c"
| "rx_match (Star a) s c =
     concat (map (\<lambda>m. if length (fst m) < length s then rx_match (Star a) (fst m) (snd m) else [])
               (rx_match a s c)) @ [(s, c)]"
| "rx_match (Grp n a) s c =
     map (\<lambda>m. (fst m, (n, take (length s - length (fst m)) s) # snd m)) (rx_match a s c)"

definition Plus :: "rx \<Rightarrow> rx" where
  "Plus r = Seq r (Star r)"

definition Opt :: "rx \<Rightarrow> rx" where
  "Opt r = Alt r Eps"

fun Seqs :: "rx list \<Rightarrow> rx" where
  "Seqs [] = Eps"
| "Seqs [r] = r"
| "Seqs (r # rs) = Seq r (Seqs rs)"

text \<open>
  \<^verbatim>\<open>String.prototype.match\<close> with a pattern without the \<^verbatim>\<open>g\<close> flag: the first
  match at the leftmost position where one exists; the result is its capture groups.
\<close>

fun rx_exec :: "rx \<Rightarrow> string \<Rightarrow> caps option" where
  "rx_exec r [] = (case rx_match r [] [] of [] \<Rightarrow> None | m # _ \<Rightarrow> Some (snd m))"
| "rx_exec r (x # xs) =
     (case rx_match r (x # xs) [] of [] \<Rightarrow> rx_exec r xs | m # _ \<Rightarrow> Some (snd m))"

definition group :: "caps \<Rightarrow> nat \<Rightarrow> string" where
  "group c n = (case map_of c n of Some s \<Rightarrow> s | None \<Rightarrow> [])"

definition is_digit :: "char \<Rightarrow> bool" where
  "is_digit c = (let n = (of_char c :: nat) in 48 \<le> n \<and> n \<le> 57)"

text \<open>
  The class \<^verbatim>\<open>\s\<close>, also what \<^verbatim>\<open>trim\<close> removes. A string is the list of the
  bytes of its UTF-8 text, so the class holds the white space of ASCII: tab, line feed,
  vertical tab, form feed, carriage return and space. The white space beyond ASCII (the
  no-break space and the other Unicode spaces, each several bytes long) is not in it.
\<close>

definition is_space :: "char \<Rightarrow> bool" where
  "is_space c = ((of_char c :: nat) \<in> {9, 10, 11, 12, 13, 32})"

definition trim :: "string \<Rightarrow> string" where
  "trim s = rev (dropWhile is_space (rev (dropWhile is_space s)))"

text \<open>A literal under the \<^verbatim>\<open>i\<close> flag, and the dot (any character but a line end).\<close>

definition lit_i :: "string \<Rightarrow> rx" where
  "lit_i s = Seqs (map (\<lambda>x. Cls (\<lambda>c. lower_char c = lower_char x)) s)"

definition any_char :: rx where
  "any_char = Cls (\<lambda>c. c \<noteq> CHR 0x0A \<and> c \<noteq> CHR 0x0D)"

text \<open>
  \<^verbatim>\<open>split(/\s+/)\<close>: a maximal run of white space is one separator; the flag says
  that the scan is inside a run, \<open>cur\<close> is the current piece, reversed.
\<close>

fun split_ws :: "bool \<Rightarrow> string \<Rightarrow> string \<Rightarrow> string list" where
  "split_ws insep [] cur = [rev cur]"
| "split_ws insep (c # cs) cur =
     (if is_space c then (if insep then split_ws True cs cur else rev cur # split_ws True cs [])
      else split_ws False cs (c # cur))"

text \<open>
  \<^verbatim>\<open>replace(/pat/g, rep)\<close> for a literal pattern: occurrences are replaced from the
  left and do not overlap; \<open>skip\<close> counts the characters of a replaced occurrence still
  to pass over.
\<close>

fun replace_all :: "nat \<Rightarrow> string \<Rightarrow> string \<Rightarrow> string \<Rightarrow> string" where
  "replace_all skip pat rep [] = []"
| "replace_all skip pat rep (c # cs) =
     (case skip of
        Suc k \<Rightarrow> replace_all k pat rep cs
      | 0 \<Rightarrow> if take (length pat) (c # cs) = pat
             then rep @ replace_all (length pat - 1) pat rep cs
             else c # replace_all 0 pat rep cs)"

section \<open>Arithmetic plugin (mathPlugin.ts)\<close>

definition mathKeywords :: "string list" where
  "mathKeywords =
     [''calculate'', ''compute'', ''solve'', ''math'', ''equation'', ''add'', ''subtract'',
      ''multiply'', ''divide'', ''plus'', ''minus'', ''times'', ''equals'', ''sum'', ''total'']"

definition MathPlugin_shouldExecute :: "string \<Rightarrow> bool" where
  "MathPlugin_shouldExecute userMessage =
     (let hasOperators = list_ex (\<lambda>c. c \<in> set ''+-*/^%=()'') userMessage;
          messageWords = split_ws False (toLowerCase userMessage) [];
          hasKeywords = list_ex (\<lambda>keyword. list_ex (\<lambda>word. str_includes word keyword) messageWords)
                          mathKeywords;
          hasNumbers = list_ex is_digit userMessage
      in (hasOperators \<and> hasNumbers) \<or> (hasKeywords \<and> hasNumbers))"

text \<open>The character classes and the six patterns of \<^verbatim>\<open>extractExpression\<close>.\<close>

definition math_char :: "char \<Rightarrow> bool" where
  "math_char c = (is_digit c \<or> c \<in> set ''+-*/^().'' \<or> is_space c)"

definition op_char :: "char \<Rightarrow> bool" where
  "op_char c = (c \<in> set ''+-*/^*'')"

definition directMath_rx :: rx where
  "directMath_rx =
     Grp 1 (Seq (Plus (Cls (\<lambda>c. math_char c \<or> c = CHR ''*'')))
                (Star (Seq (Cls op_char) (Star (Cls (\<lambda>c. math_char c \<or> c = CHR ''*''))))))"

definition whatIs_rx :: rx where
  "whatIs_rx =
     Seqs [lit_i ''what'', Plus (Cls is_space), lit_i ''is'', Plus (Cls is_space),
           Grp 1 (Plus (Cls math_char))]"

definition calculate_rx :: rx where
  "calculate_rx = Seqs [lit_i ''calculate'', Plus (Cls is_space), Grp 1 (Plus (Cls math_char))]"

definition number_rx :: "nat \<Rightarrow> rx" where
  "number_rx n =
     Grp n (Seq (Plus (Cls is_digit)) (Opt (Seq (Cls (\<lambda>c. c = CHR ''.'')) (Plus (Cls is_digit)))))"

definition binary_rx :: "string \<Rightarrow> rx" where
  "binary_rx word =
     Seqs [number_rx 1, Plus (Cls is_space), lit_i word, Plus (Cls is_space), number_rx 2]"

definition extractExpression :: "string \<Rightarrow> string option" where
  "extractExpression userMessage =
     (case (case rx_exec directMath_rx userMessage of
              None \<Rightarrow> None
            | Some m \<Rightarrow> if length (trim (group m 1)) > 1 then Some (trim (group m 1)) else None) of
        Some e \<Rightarrow> Some e
      | None \<Rightarrow> (case rx_exec whatIs_rx userMessage of
        Some m \<Rightarrow> Some (trim (group m 1))
      | None \<Rightarrow> (case rx_exec calculate_rx userMessage of
        Some m \<Rightarrow> Some (trim (group m 1))
      | None \<Rightarrow> (case rx_exec (binary_rx ''plus'') userMessage of
        Some m \<Rightarrow> Some (group m 1 @ '' + '' @ group m 2)
      | None \<Rightarrow> (case rx_exec (binary_rx ''times'') userMessage of
        Some m \<Rightarrow> Some (group m 1 @ '' * '' @ group m 2)
      | None \<Rightarrow> (case rx_exec (binary_rx ''minus'') userMessage of
        Some m \<Rightarrow> Some (group m 1 @ '' - '' @ group m 2)
      | None \<Rightarrow> None))))))"

text \<open>
  \<^verbatim>\<open>cleanExpression\<close>, its five replacements in order. The pattern of the last one
  is given by its UTF-8 bytes.
\<close>

definition cleanExpression :: "string \<Rightarrow> string" where
  "cleanExpression expression =
     (let s1 = filter (\<lambda>c. \<not> is_space c) expression;
          s2 = replace_all 0 ''**'' ''^'' s1;
          s3 = filter (\<lambda>c. is_digit c \<or> c \<in> set ''+-*/^().'') s2;
          s4 = map (\<lambda>c. if c = CHR ''x'' \<or> c = CHR ''X'' then CHR ''*'' else c) s3;
          s5 = replace_all 0 [CHR 0xE0, CHR 0xB8, CHR 0xA3, CHR 0xE0, CHR 0xB8, CHR 0x97] ''/'' s4
      in s5)"

text \<open>
  Modelled from the spec: \<^verbatim>\<open>evaluate\<close>, the expression evaluator of the mathjs
  library, which the plugin imports and which is not in the repository. The
  specification has the sanitized expression, over digits and \<^verbatim>\<open>+ - * / ^ ( ) .\<close>,
  evaluated to a number, with a failure reported as an outcome. The model covers that
  alphabet: decimal numerals, the binary operators with their usual precedence (the
  power operator binds tightest and associates to the right), prefix signs and
  parentheses, evaluated over the real numbers with an operator stack and a value
  stack. Anything else, and a division by zero, is the error result.
\<close>

datatype tok = TNum real | TOp char | TLPar | TRPar

datatype numacc = NoNum | IntPart nat | FracPart nat nat

fun flush :: "numacc \<Rightarrow> tok list" where
  "flush NoNum = []"
| "flush (IntPart n) = [TNum (real n)]"
| "flush (FracPart m k) = [TNum (real m / 10 ^ k)]"

fun tokenize :: "numacc \<Rightarrow> string \<Rightarrow> tok list option" where
  "tokenize acc [] = Some (flush acc)"
| "tokenize acc (c # cs) =
     (if is_digit c then
        (let d = (of_char c :: nat) - 48 in
         case acc of
           NoNum \<Rightarrow> tokenize (IntPart d) cs
         | IntPart n \<Rightarrow> tokenize (IntPart (10 * n + d)) cs
         | FracPart m k \<Rightarrow> tokenize (FracPart (10 * m + d) (Suc k)) cs)
      else if c = CHR ''.'' then
        (case acc of
           NoNum \<Rightarrow> tokenize (FracPart 0 0) cs
         | IntPart n \<Rightarrow> tokenize (FracPart n 0) cs
         | FracPart m k \<Rightarrow> None)
      else (case (if c \<in> set ''+-*/^'' then Some (TOp c)
                  else if c = CHR ''('' then Some TLPar
                  else if c = CHR '')'' then Some TRPar else None) of
              None \<Rightarrow> None
            | Some t \<Rightarrow> (case tokenize NoNum cs of
                          None \<Rightarrow> None
                        | Some ts \<Rightarrow> Some (flush acc @ t # ts))))"

datatype sop = Add | Sub | Mul | Div | Pow | Neg | LPar

fun prec :: "sop \<Rightarrow> nat" where
  "prec Add = 1"
| "prec Sub = 1"
| "prec Mul = 2"
| "prec Div = 2"
| "prec Neg = 3"
| "prec Pow = 4"
| "prec LPar = 0"

definition pow_num :: "real \<Rightarrow> real \<Rightarrow> real option" where
  "pow_num x y =
     (if y = of_int \<lfloor>y\<rfloor> then
        (if 0 \<le> y then Some (x ^ nat \<lfloor>y\<rfloor>)
         else if x = 0 then None else Some (1 / x ^ nat (- \<lfloor>y\<rfloor>)))
      else if 0 < x then Some (x powr y) else None)"

fun apply_sop :: "sop \<Rightarrow> real list \<Rightarrow> real list option" where
  "apply_sop Neg (x # vs) = Some (- x # vs)"
| "apply_sop Add (y # x # vs) = Some ((x + y) # vs)"
| "apply_sop Sub (y # x # vs) = Some ((x - y) # vs)"
| "apply_sop Mul (y # x # vs) = Some ((x * y) # vs)"
| "apply_sop Div (y # x # vs) = (if y = 0 then None else Some ((x / y) # vs))"
| "apply_sop Pow (y # x # vs) = (case pow_num x y of None \<Rightarrow> None | Some z \<Rightarrow> Some (z # vs))"
| "apply_sop _ _ = None"

fun reduce_while :: "(sop \<Rightarrow> bool) \<Rightarrow> real list \<Rightarrow> sop list \<Rightarrow> (real list \<times> sop list) option" where
  "reduce_while p vs [] = Some (vs, [])"
| "reduce_while p vs (o1 # os) =
     (if o1 \<noteq> LPar \<and> p o1
      then (case apply_sop o1 vs of None \<Rightarrow> None | Some vs' \<Rightarrow> reduce_while p vs' os)
      else Some (vs, o1 # os))"

definition binary_sop :: "char \<Rightarrow> sop" where
  "binary_sop c =
     (if c = CHR ''+'' then Add else if c = CHR ''-'' then Sub
      else if c = CHR ''*'' then Mul else if c = CHR ''/'' then Div else Pow)"

text \<open>
  The state is the value stack, the operator stack and whether an operand is expected
  next (at the start, after an operator and after an opening parenthesis).
\<close>

fun eval_tokens :: "tok list \<Rightarrow> real list \<Rightarrow> sop list \<Rightarrow> bool \<Rightarrow> real option" where
  "eval_tokens [] vs os expect =
     (if expect then None
      else (case reduce_while (\<lambda>_. True) vs os of
              Some ([v], []) \<Rightarrow> Some v
            | _ \<Rightarrow> None))"
| "eval_tokens (TNum v # ts) vs os expect =
     (if expect then eval_tokens ts (v # vs) os False else None)"
| "eval_tokens (TLPar # ts) vs os expect =
     (if expect then eval_tokens ts vs (LPar # os) True else None)"
| "eval_tokens (TRPar # ts) vs os expect =
     (if expect then None
      else (case reduce_while (\<lambda>_. True) vs os of
              Some (vs', LPar # os') \<Rightarrow> eval_tokens ts vs' os' False
            | _ \<Rightarrow> None))"
| "eval_tokens (TOp c # ts) vs os expect =
     (if expect then
        (if c = CHR ''-'' then eval_tokens ts vs (Neg # os) True
         else if c = CHR ''+'' then eval_tokens ts vs os True
         else None)
      else (let o1 = binary_sop c in
            case reduce_while (\<lambda>o2. prec o2 > prec o1 \<or> (prec o2 = prec o1 \<and> o1 \<noteq> Pow)) vs os of
              None \<Rightarrow> None
            | Some (vs', os') \<Rightarrow> eval_tokens ts vs' (o1 # os') True))"

definition evaluate :: "string \<Rightarrow> error + real" where
  "evaluate s =
     (case tokenize NoNum s of
        None \<Rightarrow> Inl (Error ''SyntaxError'')
      | Some ts \<Rightarrow> (case eval_tokens ts [] [] True of
                     None \<Rightarrow> Inl (Error ''SyntaxError'')
                   | Some v \<Rightarrow> Inr v))"

section \<open>Plugin results and the weather plugin (weatherPlugin.ts)\<close>

record WeatherData =
  location :: string
  temperature :: real
  description :: string
  humidity :: real
  wind_speed :: real

record MathResult =
  expression :: string
  mr_result :: real
  mr_success :: bool
  mr_error :: "string option"

datatype payload = MathPayload MathResult | WeatherPayload WeatherData

record PluginResult =
  plugin_name :: string
  pr_result :: payload
  pr_success :: bool
  pr_error :: "string option"

record PluginExecutionContext =
  ctx_query :: string
  ctx_user_message :: string
  ctx_session_id :: string

text \<open>
  What a turn takes from outside the core: the clock (its successive readings during
  the turn), the weather credential and provider, the random numbers of the mock
  weather, the embedding capability, the content generation of the chat provider, and
  the conversion of a number to its decimal string.
\<close>

record Env =
  env_clock :: "nat \<Rightarrow> string"
  env_apiKey :: "string option"
  env_fetchWeatherData :: "string \<Rightarrow> error + WeatherData"
  env_random :: "nat \<Rightarrow> real"
  env_generateEmbedding :: "string \<Rightarrow> error + real list"
  env_generateContent :: "string \<Rightarrow> error + string"
  env_show_number :: "real \<Rightarrow> string"

definition MathPlugin_execute :: "PluginExecutionContext \<Rightarrow> PluginResult" where
  "MathPlugin_execute context =
     (case extractExpression (ctx_user_message context) of
        None \<Rightarrow>
          \<lparr>plugin_name = ''math'',
           pr_result = MathPayload \<lparr>expression = ''unknown'', mr_result = 0, mr_success = False,
             mr_error = Some ''Could not extract mathematical expression from the message''\<rparr>,
           pr_success = False, pr_error = Some ''No valid mathematical expression found''\<rparr>
      | Some expr \<Rightarrow>
          if expr = [] then
            \<lparr>plugin_name = ''math'',
             pr_result = MathPayload \<lparr>expression = ''unknown'', mr_result = 0, mr_success = False,
               mr_error = Some ''Could not extract mathematical expression from the message''\<rparr>,
             pr_success = False, pr_error = Some ''No valid mathematical expression found''\<rparr>
          else
            (let cleanExpr = cleanExpression expr in
             case evaluate cleanExpr of
               Inr v \<Rightarrow>
                 \<lparr>plugin_name = ''math'',
                  pr_result = MathPayload \<lparr>expression = cleanExpr, mr_result = v,
                    mr_success = True, mr_error = None\<rparr>,
                  pr_success = True, pr_error = None\<rparr>
             | Inl e \<Rightarrow>
                 \<lparr>plugin_name = ''math'',
                  pr_result = MathPayload \<lparr>expression = ''error'', mr_result = 0,
                    mr_success = False, mr_error = None\<rparr>,
                  pr_success = False,
                  pr_error = Some (''Mathematical evaluation failed: '' @ (case e of Error m \<Rightarrow> m))\<rparr>))"

definition weatherKeywords :: "string list" where
  "weatherKeywords =
     [''weather'', ''temperature'', ''forecast'', ''climate'', ''rain'', ''sunny'',
      ''cloudy'', ''storm'', ''humidity'', ''wind'', ''hot'', ''cold'', ''degrees'']"

definition WeatherPlugin_shouldExecute :: "string \<Rightarrow> bool" where
  "WeatherPlugin_shouldExecute userMessage =
     (let messageWords = split_ws False (toLowerCase userMessage) []
      in list_ex (\<lambda>keyword. list_ex (\<lambda>word. str_includes word keyword) messageWords)
           weatherKeywords)"

definition place_rx :: rx where
  "place_rx = Grp 1 (Plus (Cls (\<lambda>c. c \<notin> set ''?.!'' \<and> \<not> is_space c)))"

definition location_patterns :: "rx list" where
  "location_patterns =
     [Seqs [lit_i ''weather'', Plus (Cls is_space), lit_i ''in'', Plus (Cls is_space), place_rx],
      Seqs [lit_i ''temperature'', Plus (Cls is_space), lit_i ''in'', Plus (Cls is_space), place_rx],
      Seqs [lit_i ''forecast'', Plus (Cls is_space), lit_i ''for'', Plus (Cls is_space), place_rx],
      Seqs [lit_i ''how'', Star any_char,
            Alt (lit_i ''hot'') (Alt (lit_i ''cold'') (lit_i ''warm'')), Plus (Cls is_space),
            Opt (Seqs [lit_i ''is'', Plus (Cls is_space), lit_i ''it'', Plus (Cls is_space)]),
            lit_i ''in'', Plus (Cls is_space), place_rx]]"

fun first_location :: "rx list \<Rightarrow> string \<Rightarrow> string" where
  "first_location [] userMessage = ''New York''"
| "first_location (pattern # patterns) userMessage =
     (case rx_exec pattern userMessage of
        Some m \<Rightarrow> trim (group m 1)
      | None \<Rightarrow> first_location patterns userMessage)"

definition extractLocation :: "string \<Rightarrow> string" where
  "extractLocation userMessage = first_location location_patterns userMessage"

text \<open>
  \<^verbatim>\<open>getMockWeatherData\<close>: the four calls of \<^verbatim>\<open>Math.random()\<close> are the readings
  0 to 3 of \<open>env_random\<close>.
\<close>

definition getMockWeatherData :: "Env \<Rightarrow> string \<Rightarrow> PluginResult" where
  "getMockWeatherData env loc =
     \<lparr>plugin_name = ''weather'',
      pr_result = WeatherPayload
        \<lparr>location = loc,
         temperature = of_int \<lfloor>env_random env 0 * 30\<rfloor> + 5,
         description =
           (let i = \<lfloor>env_random env 1 * 4\<rfloor> in
            if i = 0 then ''sunny'' else if i = 1 then ''cloudy''
            else if i = 2 then ''partly cloudy'' else if i = 3 then ''rainy'' else ''undefined''),
         humidity = of_int \<lfloor>env_random env 2 * 40\<rfloor> + 40,
         wind_speed = of_int \<lfloor>env_random env 3 * 20\<rfloor> + 5\<rparr>,
      pr_success = True, pr_error = None\<rparr>"

definition WeatherPlugin_execute :: "Env \<Rightarrow> PluginExecutionContext \<Rightarrow> PluginResult" where
  "WeatherPlugin_execute env context =
     (let loc = extractLocation (ctx_user_message context) in
      if env_apiKey env = None \<or> env_apiKey env = Some [] then getMockWeatherData env loc
      else (case env_fetchWeatherData env loc of
              Inr weatherData \<Rightarrow>
                \<lparr>plugin_name = ''weather'', pr_result = WeatherPayload weatherData,
                 pr_success = True, pr_error = None\<rparr>
            | Inl e \<Rightarrow> getMockWeatherData env (extractLocation (ctx_user_message context))))"

section \<open>Plugin router (pluginManager.ts)\<close>

definition executePlugins :: "Env \<Rightarrow> PluginExecutionContext \<Rightarrow> PluginResult list" where
  "executePlugins env context =
     (if WeatherPlugin_shouldExecute (ctx_user_message context)
      then [WeatherPlugin_execute env context] else []) @
     (if MathPlugin_shouldExecute (ctx_user_message context)
      then [MathPlugin_execute context] else [])"

definition join :: "string \<Rightarrow> string list \<Rightarrow> string" where
  "join sep xs = (case xs of [] \<Rightarrow> [] | y # ys \<Rightarrow> y @ concat (map (\<lambda>z. sep @ z) ys))"

definition join_lines :: "string list \<Rightarrow> string" where
  "join_lines xs = join [CHR 0x0A] xs"

text \<open>The two characters backslash and n, which several string literals of the source hold.\<close>

definition bsn :: string where
  "bsn = [CHR 0x5C, CHR ''n'']"

definition MathPlugin_formatForLLM :: "Env \<Rightarrow> MathResult \<Rightarrow> string" where
  "MathPlugin_formatForLLM env mathResult =
     (if \<not> mr_success mathResult
      then ''Mathematical calculation failed: '' @ expression mathResult
      else join_lines [''Mathematical calculation:'',
             ''Expression: '' @ expression mathResult,
             ''Result: '' @ env_show_number env (mr_result mathResult)])"

definition WeatherPlugin_formatForLLM :: "Env \<Rightarrow> WeatherData \<Rightarrow> string" where
  "WeatherPlugin_formatForLLM env weatherData =
     join_lines [''Current weather in '' @ location weatherData @ '':'',
       ''- Temperature: '' @ env_show_number env (temperature weatherData) @ [CHR 0xC2, CHR 0xB0] @ ''C'',
       ''- Conditions: '' @ description weatherData,
       ''- Humidity: '' @ env_show_number env (humidity weatherData) @ ''%'',
       ''- Wind Speed: '' @ env_show_number env (wind_speed weatherData) @ '' km/h'']"

definition formatPluginResult :: "Env \<Rightarrow> PluginResult \<Rightarrow> string" where
  "formatPluginResult env r =
     (if pr_success r then
        (case pr_result r of
           WeatherPayload w \<Rightarrow>
             (if plugin_name r = ''weather'' then WeatherPlugin_formatForLLM env w else [])
         | MathPayload m \<Rightarrow>
             (if plugin_name r = ''weather'' then []
              else if plugin_name r = ''math'' then MathPlugin_formatForLLM env m else [])) @
        bsn @ bsn
      else plugin_name r @ '' plugin failed: '' @
           (case pr_error r of Some e \<Rightarrow> e | None \<Rightarrow> ''undefined'') @ bsn @ bsn)"

definition formatPluginResults :: "Env \<Rightarrow> PluginResult list \<Rightarrow> string" where
  "formatPluginResults env results =
     (if results = [] then []
      else bsn @ bsn @ ''--- Plugin Results ---'' @ bsn @ concat (map (formatPluginResult env) results))"

text \<open>The fixed texts of the system prompt and of the capability manifest.\<close>

definition getPluginCapabilities :: string where
  \<open>getPluginCapabilities =
     join_lines
     [''Available plugins:'',
      ''1. Weather Plugin: Provides current weather information for any location'',
      ''   - Triggers on: weather, temperature, forecast, climate-related queries'',
      ''   - Example: "What's the weather in London?"'',
      '''',
      ''2. Math Plugin: Performs mathematical calculations and evaluations'',
      ''   - Triggers on: mathematical expressions, calculation requests'',
      ''   - Example: "What is 2 + 2 * 5?"'',
      '''',
      ''These plugins will automatically activate when relevant queries are detected.'']\<close>

definition prompt_intro :: string where
  \<open>prompt_intro =
     join_lines
     [''You are an intelligent AI assistant with access to a knowledge base and various tools.'',
      '''',
      ''## Core Instructions:'',
      ''- Provide helpful, accurate, and conversational responses'',
      ''- Use the provided context and plugin results to enhance your answers'',
      ''- Maintain a professional yet friendly tone'',
      ''- If you don't know something, admit it rather than making assumptions'',
      ''- Be concise but comprehensive in your responses'',
      '''',
      ''## Technical Architecture:'',
      ''- Chat responses and document embeddings powered by Google Gemini'',
      ''- Real-time plugin execution for weather and math operations'',
      ''- Session-based memory management with intelligent context injection'',
      '''',
      ''## Available Capabilities:'',
      '''']\<close>

definition prompt_context_heading :: string where
  \<open>prompt_context_heading =
     join_lines
     ['''',
      '''',
      ''## Conversation Context:'',
      '''']\<close>

definition prompt_knowledge_heading :: string where
  \<open>prompt_knowledge_heading =
     join_lines
     ['''',
      '''',
      ''## Retrieved Knowledge Base Context (via Gemini embeddings):'',
      '''']\<close>

definition prompt_plugin_heading :: string where
  \<open>prompt_plugin_heading =
     join_lines
     ['''',
      '''',
      ''## Plugin Execution Results:'',
      '''']\<close>

definition prompt_guidelines :: string where
  \<open>prompt_guidelines =
     join_lines
     ['''',
      '''',
      ''## Guidelines:'',
      ''1. If plugin results are available, incorporate them naturally into your response'',
      ''2. Use the knowledge base context to provide more detailed and accurate information'',
      ''3. Reference previous conversation when relevant'',
      ''4. If asked about weather or math calculations, the plugin results will provide current data'',
      ''5. Always be helpful and try to fully address the user's question'',
      '''',
      ''Please provide a helpful response based on all the available information above.'']\<close>


section \<open>Chat generation (geminiService.ts)\<close>

text \<open>
  \<^verbatim>\<open>generateChatCompletion\<close> builds one prompt from the system prompt, the history
  and the current message, and asks the provider for content; any failure is rethrown
  as one fixed error, an empty text replaced by a fixed one.
\<close>

definition generateChatCompletion ::
  "Env \<Rightarrow> string \<Rightarrow> string \<Rightarrow> ConversationMessage list \<Rightarrow> error + string" where
  "generateChatCompletion env systemPrompt userMessage conversationHistory =
     (let fullPrompt =
            systemPrompt @ [CHR 0x0A, CHR 0x0A] @
            (if length conversationHistory > 0
             then ''Previous conversation:'' @ [CHR 0x0A] @
                  concat (map (\<lambda>msg. (if msg_role msg = User then ''Human'' else ''Assistant'') @
                                 '': '' @ msg_content msg @ [CHR 0x0A]) conversationHistory) @
                  [CHR 0x0A]
             else []) @
            ''Current message from Human: '' @ userMessage @ [CHR 0x0A, CHR 0x0A] @ ''Assistant:''
      in case env_generateContent env fullPrompt of
           Inl e \<Rightarrow> Inl (Error ''Failed to generate response from Gemini'')
         | Inr txt \<Rightarrow> Inr (if txt = [] then ''No response generated'' else txt))"

section \<open>Orchestrator (agentService.ts)\<close>

record AgentMessage =
  am_message :: string
  am_session_id :: string

record AgentResponse =
  reply :: string
  resp_session_id :: string
  timestamp :: string
  plugins_used :: "string list"
  context_retrieved :: bool

definition role_name :: "role \<Rightarrow> string" where
  "role_name r = (case r of User \<Rightarrow> ''user'' | Assistant \<Rightarrow> ''assistant'')"

definition getConversationSummary :: "sessions \<Rightarrow> string \<Rightarrow> string" where
  "getConversationSummary ss sessionId =
     (let recentMessages = getRecentMessages ss sessionId 4 in
      if length recentMessages = 0 then ''No previous conversation history.''
      else ''Recent conversation context:'' @ bsn @
           join bsn (map (\<lambda>msg. role_name (msg_role msg) @ '': '' @ msg_content msg) recentMessages))"

definition formatContext :: "Env \<Rightarrow> nat \<times> SearchResult \<Rightarrow> string" where
  \<open>formatContext env p =
     (case p of (index, r) \<Rightarrow>
        (let doc = document r in
         ''Context '' @ env_show_number env (real (index + 1)) @ '' (from '' @
         filename (doc_metadata doc) @ ''):'' @
         (case title (doc_metadata doc) of
            None \<Rightarrow> []
          | Some t \<Rightarrow> if t = [] then [] else '' "'' @ t @ ''"'') @
         bsn @ doc_content doc @ bsn @ bsn))\<close>

definition formatContextForPrompt :: "Env \<Rightarrow> SearchResult list \<Rightarrow> string" where
  "formatContextForPrompt env results =
     (if length results = 0 then ''No relevant context found in knowledge base.''
      else ''Relevant information from knowledge base:'' @ bsn @ bsn @
           concat (map (formatContext env) (enumerate 0 results)))"

definition generateSystemPrompt :: "string \<Rightarrow> string \<Rightarrow> string \<Rightarrow> string" where
  "generateSystemPrompt memoryText contextText pluginText =
     prompt_intro @ getPluginCapabilities @ prompt_context_heading @ memoryText @
     prompt_knowledge_heading @ contextText @ prompt_plugin_heading @ pluginText @
     prompt_guidelines"

text \<open>
  The outcome of a turn: the response, the session store after the turn, and the calls
  made to the chat generation, each with its system prompt, message and history.
\<close>

record Turn =
  response :: AgentResponse
  store :: sessions
  chat_calls :: "(string \<times> string \<times> ConversationMessage list) list"

definition apology :: string where
  "apology = ''I apologize, but I encountered an error while processing your message. Please try again.''"

text \<open>
  \<^verbatim>\<open>processMessage\<close>. Inside the outer \<^verbatim>\<open>try\<close> only the chat generation can
  throw: the search and the plugins catch their own errors. Clock reading 0 is the
  timestamp of the turn, readings 1 and 2 are those of the two appends.
\<close>

definition processMessage :: "Env \<Rightarrow> Document list \<Rightarrow> sessions \<Rightarrow> AgentMessage \<Rightarrow> Turn" where
  "processMessage env documents ss request =
     (let message = am_message request;
          sid = am_session_id request;
          ts = env_clock env 0;
          ss1 = addMessage (env_clock env 1) ss sid User message;
          contextResults = fst (searchSimilar (env_generateEmbedding env) documents message 3);
          contextText = formatContextForPrompt env contextResults;
          pluginContext = \<lparr>ctx_query = message, ctx_user_message = message, ctx_session_id = sid\<rparr>;
          pluginResults = executePlugins env pluginContext;
          pluginText = formatPluginResults env pluginResults;
          conversationHistory = getRecentMessages ss1 sid 4;
          memoryText = getConversationSummary ss1 sid;
          systemPrompt = generateSystemPrompt memoryText contextText pluginText;
          history = slice 0 (Some (- 1)) conversationHistory
      in case generateChatCompletion env systemPrompt message history of
           Inr aiResponse \<Rightarrow>
             \<lparr>response = \<lparr>reply = aiResponse, resp_session_id = sid, timestamp = ts,
                           plugins_used = map plugin_name pluginResults,
                           context_retrieved = (length contextResults > 0)\<rparr>,
              store = addMessage (env_clock env 2) ss1 sid Assistant aiResponse,
              chat_calls = [(systemPrompt, message, history)]\<rparr>
         | Inl e \<Rightarrow>
             \<lparr>response = \<lparr>reply = apology, resp_session_id = sid, timestamp = ts,
                           plugins_used = [], context_retrieved = False\<rparr>,
              store = ss1,
              chat_calls = [(systemPrompt, message, history)]\<rparr>)"

text \<open>
  A concrete environment and session for running a turn: the providers for weather and
  embeddings are unreachable, the chat provider answers or fails as the flag says; and
  a session that already holds four messages.
\<close>

definition example_env :: "bool \<Rightarrow> Env" where
  "example_env ok =
     \<lparr>env_clock = (\<lambda>n. if n = 0 then ''t0'' else if n = 1 then ''t1'' else ''t2''),
      env_apiKey = None,
      env_fetchWeatherData = (\<lambda>l. Inl (Error ''offline'')),
      env_random = (\<lambda>n. 0),
      env_generateEmbedding = (\<lambda>q. Inl (Error ''offline'')),
      env_generateContent = (\<lambda>p. if ok then Inr ''fine'' else Inl (Error ''down'')),
      env_show_number = (\<lambda>x. ''n'')\<rparr>"

definition example_session :: sessions where
  "example_session =
     addAll Map.empty ''s''
       [(''a'', User, ''m1''), (''b'', Assistant, ''m2''), (''c'', User, ''m3''),
        (''d'', Assistant, ''m4'')]"

section \<open>Document chunker (documentLoader.ts)\<close>

definition CHUNK_SIZE :: nat where
  "CHUNK_SIZE = 1000"

definition CHUNK_OVERLAP :: nat where
  "CHUNK_OVERLAP = 200"

text \<open>
  \<^verbatim>\<open>text.lastIndexOf(pat, fromIndex)\<close> for a non-empty \<open>pat\<close>: the greatest index not
  above \<open>fromIndex\<close> at which \<open>pat\<close> occurs, or -1. The scan runs from index \<open>i\<close>
  upwards and keeps the last occurrence seen.
\<close>

fun last_occurrence :: "string \<Rightarrow> string \<Rightarrow> nat \<Rightarrow> nat \<Rightarrow> int \<Rightarrow> int" where
  "last_occurrence pat [] i fromIndex best = best"
| "last_occurrence pat (c # cs) i fromIndex best =
     (if fromIndex < i then best
      else last_occurrence pat cs (Suc i) fromIndex
             (if take (length pat) (c # cs) = pat then int i else best))"

definition lastIndexOf :: "string \<Rightarrow> string \<Rightarrow> nat \<Rightarrow> int" where
  "lastIndexOf pat txt fromIndex = last_occurrence pat txt 0 fromIndex (- 1)"

text \<open>
  One iteration of the loop of \<^verbatim>\<open>chunkText\<close>, in three parts: the end of the window
  (moved to just after the last full stop, or the last occurrence of the four characters
  backslash, n, backslash, n that the source searches for, when that lies past the
  middle of the window), the trimmed chunk, and the next start.
\<close>

definition window_end :: "string \<Rightarrow> nat \<Rightarrow> nat" where
  "window_end txt start =
     (let end0 = start + CHUNK_SIZE in
      if end0 < length txt then
        (let lastSentence = lastIndexOf ''.'' txt end0;
             lastNewline = lastIndexOf (bsn @ bsn) txt end0;
             lastParagraph = max lastSentence lastNewline
         in if real_of_int lastParagraph > real start + real CHUNK_SIZE / 2
            then nat (lastParagraph + 1) else end0)
      else end0)"

definition chunk_at :: "string \<Rightarrow> nat \<Rightarrow> string" where
  "chunk_at txt start = trim (slice (int start) (Some (int (window_end txt start))) txt)"

definition next_start :: "string \<Rightarrow> nat \<Rightarrow> nat" where
  "next_start txt start = max (start + CHUNK_SIZE - CHUNK_OVERLAP) (window_end txt start)"

function chunk_loop :: "string \<Rightarrow> nat \<Rightarrow> string list \<Rightarrow> string list" where
  "chunk_loop txt start chunks =
     (if start < length txt then
        chunk_loop txt (next_start txt start)
          (if length (chunk_at txt start) > 0 then chunks @ [chunk_at txt start] else chunks)
      else chunks)"
  by pat_completeness auto
termination
  by (relation "measure (\<lambda>(txt, start, chunks). length txt - start)")
     (auto simp: next_start_def CHUNK_SIZE_def CHUNK_OVERLAP_def)

declare chunk_loop.simps [simp del]

definition chunkText :: "string \<Rightarrow> string list" where
  "chunkText txt = chunk_loop txt 0 []"

text \<open>
  The same loop with a bound on the number of iterations: \<open>None\<close> when the bound is
  used up before the scan position reaches the end of the text.
\<close>

fun chunk_fuel :: "nat \<Rightarrow> string \<Rightarrow> nat \<Rightarrow> string list \<Rightarrow> string list option" where
  "chunk_fuel fuel txt start chunks =
     (if start < length txt then
        (case fuel of
           0 \<Rightarrow> None
         | Suc n \<Rightarrow>
             chunk_fuel n txt (next_start txt start)
               (if length (chunk_at txt start) > 0 then chunks @ [chunk_at txt start] else chunks))
      else Some chunks)"

declare chunk_fuel.simps [simp del]

section \<open>Change detection of the persistent index (persistentVectorStore.ts)\<close>

record FileMetadata =
  md_filename :: string
  fileHash :: string
  lastModified :: real
  chunkCount :: nat
  processedAt :: string

text \<open>
  The file system as the functions the code calls: the directory listing, the
  modification time of \<^verbatim>\<open>statSync\<close>, the content of \<^verbatim>\<open>readFileSync\<close>, each of
  which can throw; \<^verbatim>\<open>path.join\<close>; and the MD5 digest in hexadecimal.
\<close>

record FileSystem =
  fs_readdir :: "string \<Rightarrow> error + string list"
  fs_mtimeMs :: "string \<Rightarrow> error + real"
  fs_readFile :: "string \<Rightarrow> error + string"
  fs_join :: "string \<Rightarrow> string \<Rightarrow> string"
  fs_md5 :: "string \<Rightarrow> string"

definition getFileHash :: "FileSystem \<Rightarrow> string \<Rightarrow> string" where
  "getFileHash fs filePath =
     (case fs_readFile fs filePath of Inr content \<Rightarrow> fs_md5 fs content | Inl e \<Rightarrow> [])"

definition hasFileChanged :: "FileSystem \<Rightarrow> string \<Rightarrow> FileMetadata \<Rightarrow> bool" where
  "hasFileChanged fs filePath metadata =
     (case fs_mtimeMs fs filePath of
        Inl e \<Rightarrow> True
      | Inr mtimeMs \<Rightarrow>
          (let currentHash = getFileHash fs filePath
           in currentHash \<noteq> fileHash metadata \<or> mtimeMs \<noteq> lastModified metadata))"

record FilesToProcess =
  newFiles :: "string list"
  changedFiles :: "string list"
  unchangedFiles :: "string list"

definition endsWith :: "string \<Rightarrow> string \<Rightarrow> bool" where
  "endsWith s suffix = (length suffix \<le> length s \<and> drop (length s - length suffix) s = suffix)"

fun classify_files ::
  "FileSystem \<Rightarrow> string \<Rightarrow> (string \<rightharpoonup> FileMetadata) \<Rightarrow> string list \<Rightarrow> FilesToProcess \<Rightarrow>
     FilesToProcess" where
  "classify_files fs directoryPath existingMetadata [] acc = acc"
| "classify_files fs directoryPath existingMetadata (name # names) acc =
     (let filePath = fs_join fs directoryPath name in
      classify_files fs directoryPath existingMetadata names
        (case existingMetadata name of
           None \<Rightarrow> acc\<lparr>newFiles := newFiles acc @ [filePath]\<rparr>
         | Some metadata \<Rightarrow>
             if hasFileChanged fs filePath metadata
             then acc\<lparr>changedFiles := changedFiles acc @ [filePath]\<rparr>
             else acc\<lparr>unchangedFiles := unchangedFiles acc @ [filePath]\<rparr>))"

definition getFilesToProcess ::
  "FileSystem \<Rightarrow> string \<Rightarrow> (string \<rightharpoonup> FileMetadata) \<Rightarrow> error + FilesToProcess" where
  "getFilesToProcess fs directoryPath existingMetadata =
     (case fs_readdir fs directoryPath of
        Inl e \<Rightarrow> Inl e
      | Inr files \<Rightarrow>
          (let markdownFiles = filter (\<lambda>file. endsWith file ''.md'') files
           in Inr (classify_files fs directoryPath existingMetadata markdownFiles
                \<lparr>newFiles = [], changedFiles = [], unchangedFiles = []\<rparr>)))"

text \<open>
  A directory for running the classification: a.md has no metadata, b.md was touched
  without an edit, c.md is as recorded, d.md was edited, notes.txt is not a source file.
\<close>

definition example_fs :: FileSystem where
  "example_fs =
     \<lparr>fs_readdir = (\<lambda>d. Inr [''a.md'', ''b.md'', ''notes.txt'', ''c.md'', ''d.md'']),
      fs_mtimeMs = (\<lambda>p. if p = ''docs/b.md'' then Inr 7 else Inr 5),
      fs_readFile = (\<lambda>p. Inr (if p = ''docs/d.md'' then ''new'' else ''old'')),
      fs_join = (\<lambda>d f. d @ ''/'' @ f),
      fs_md5 = (\<lambda>c. ''h-'' @ c)\<rparr>"

definition example_metadata :: "string \<rightharpoonup> FileMetadata" where
  "example_metadata =
     (\<lambda>f. if f \<in> {''b.md'', ''c.md'', ''d.md''}
          then Some \<lparr>md_filename = f, fileHash = ''h-old'', lastModified = 5, chunkCount = 1,
                     processedAt = ''t''\<rparr>
          else None)"

text \<open>
  A chunk as the loop may emit it: not empty, with no white space at either end, and of
  at most 1001 characters.
\<close>

definition good_chunk :: "string \<Rightarrow> bool" where
  "good_chunk c = (c \<noteq> [] \<and> \<not> is_space (hd c) \<and> \<not> is_space (last c) \<and> length c \<le> 1001)"

text \<open>
  The three classes in the words of the specification, for a file name of the directory:
  new when it has no metadata entry; changed when it has one and the current content
  hash differs from the stored hash or the current modification time is not the stored
  one (a file whose modification time cannot be read has none that equals it);
  unchanged when it has one and both are as stored.
\<close>

definition file_is_new :: "(string \<rightharpoonup> FileMetadata) \<Rightarrow> string \<Rightarrow> bool" where
  "file_is_new existingMetadata name = (existingMetadata name = None)"

definition file_is_changed :: "FileSystem \<Rightarrow> string \<Rightarrow> (string \<rightharpoonup> FileMetadata) \<Rightarrow> string \<Rightarrow> bool" where
  "file_is_changed fs directoryPath existingMetadata name =
     (case existingMetadata name of
        None \<Rightarrow> False
      | Some metadata \<Rightarrow>
          getFileHash fs (fs_join fs directoryPath name) \<noteq> fileHash metadata \<or>
          fs_mtimeMs fs (fs_join fs directoryPath name) \<noteq> Inr (lastModified metadata))"

definition file_is_unchanged :: "FileSystem \<Rightarrow> string \<Rightarrow> (string \<rightharpoonup> FileMetadata) \<Rightarrow> string \<Rightarrow> bool" where
  "file_is_unchanged fs directoryPath existingMetadata name =
     (case existingMetadata name of
        None \<Rightarrow> False
      | Some metadata \<Rightarrow>
          getFileHash fs (fs_join fs directoryPath name) = fileHash metadata \<and>
          fs_mtimeMs fs (fs_join fs directoryPath name) = Inr (lastModified metadata))"




section \<open>Properties\<close>

lemma slice_last: "0 < n \<Longrightarrow> slice (- int n) None xs = drop (length xs - n) xs"
  by (auto simp: slice_def Let_def max_def nat_diff_distrib')

lemma slice_last_20: "slice (- 20) None xs = drop (length xs - 20) xs"
  using slice_last [of 20 xs] by simp

lemma addMessage_history:
  "getSessionHistory (addMessage now ss sid r c) sid =
     drop (Suc (length (getSessionHistory ss sid)) - 20)
       (getSessionHistory ss sid @ [mk_message (now, r, c)])"
  by (auto simp: addMessage_def getSessionHistory_def mk_message_def Let_def slice_last_20
      MAX_MESSAGES_PER_SESSION_def split: option.splits)

lemma addMessage_capped: "capped_store ss \<Longrightarrow> capped_store (addMessage now ss sid r c)"
  unfolding capped_store_def
  by (auto simp: addMessage_def Let_def slice_last_20 MAX_MESSAGES_PER_SESSION_def
      split: option.splits if_splits)

lemma clearSession_capped: "capped_store ss \<Longrightarrow> capped_store (clearSession ss sid)"
  by (auto simp: capped_store_def clearSession_def)

lemma apply_op_capped: "capped_store ss \<Longrightarrow> capped_store (apply_op ss op)"
  by (cases op) (simp_all add: addMessage_capped clearSession_capped)

lemma foldl_apply_op_capped: "capped_store ss \<Longrightarrow> capped_store (foldl apply_op ss ops)"
  by (induction ops arbitrary: ss) (simp_all add: apply_op_capped)

lemma drop_last_append:
  "drop (length (drop (length xs - n) xs) + length ys - n) (drop (length xs - n) xs @ ys) =
   drop (length xs + length ys - n) (xs @ ys)"
proof (cases "length xs \<le> n")
  case True
  then show ?thesis by simp
next
  case False
  then have e: "length xs + length ys - n = length ys + (length xs - n)" by simp
  have "drop (length ys + (length xs - n)) (xs @ ys) = drop (length ys) (drop (length xs - n) (xs @ ys))"
    by (simp only: drop_drop)
  also have "\<dots> = drop (length ys) (drop (length xs - n) xs @ ys)" by simp
  finally show ?thesis using False by (simp add: e)
qed

lemma addAll_history:
  "length (getSessionHistory ss sid) \<le> 20 \<Longrightarrow>
   getSessionHistory (addAll ss sid es) sid =
     drop (length (getSessionHistory ss sid) + length es - 20)
       (getSessionHistory ss sid @ map mk_message es)"
proof (induction es arbitrary: ss)
  case Nil
  then show ?case by simp
next
  case (Cons e es)
  obtain now r c where e: "e = (now, r, c)" by (cases e) auto
  let ?ss = "addMessage now ss sid r c"
  let ?h = "getSessionHistory ss sid"
  let ?xs = "?h @ [mk_message e]"
  have h1: "getSessionHistory ?ss sid = drop (length ?xs - 20) ?xs"
    by (simp add: addMessage_history e)
  have "length (getSessionHistory ?ss sid) \<le> 20"
    by (simp add: h1)
  from Cons.IH [OF this]
  have "getSessionHistory (addAll ?ss sid es) sid =
      drop (length (drop (length ?xs - 20) ?xs) + length (map mk_message es) - 20)
        (drop (length ?xs - 20) ?xs @ map mk_message es)"
    by (simp only: h1 length_map)
  also have "\<dots> = drop (length ?xs + length (map mk_message es) - 20) (?xs @ map mk_message es)"
    by (rule drop_last_append)
  finally show ?case by (simp add: e)
qed

subsection \<open>Session memory cap\<close>

text \<open>
  C3. Every run of MemoryService operations from the empty store keeps each session at
  no more than 20 messages; each mutating operation preserves that bound; and appending
  to one session keeps exactly the most recent 20 messages in their original order, so
  that after 25 appends the last 20 of them remain (the first 5 are dropped).
\<close>

theorem session_cap_fifo:
  "capped_store (foldl apply_op Map.empty ops) \<and>
   (capped_store ss \<longrightarrow>
      capped_store (addMessage now ss sid r c) \<and> capped_store (clearSession ss sid) \<and>
      getSessionHistory (addAll ss sid es) sid =
        drop (length (getSessionHistory ss sid) + length es - 20)
          (getSessionHistory ss sid @ map mk_message es)) \<and>
   (length es = 25 \<longrightarrow>
      getSessionHistory (addAll Map.empty sid es) sid = map mk_message (drop 5 es))"
proof (intro conjI impI)
  have e: "capped_store Map.empty" by (simp add: capped_store_def)
  then show "capped_store (foldl apply_op Map.empty ops)" by (rule foldl_apply_op_capped)
next
  assume "capped_store ss"
  then show "capped_store (addMessage now ss sid r c)" by (rule addMessage_capped)
next
  assume "capped_store ss"
  then show "capped_store (clearSession ss sid)" by (rule clearSession_capped)
next
  assume "capped_store ss"
  then have "length (getSessionHistory ss sid) \<le> 20"
    by (auto simp: capped_store_def getSessionHistory_def split: option.splits)
  then show "getSessionHistory (addAll ss sid es) sid =
        drop (length (getSessionHistory ss sid) + length es - 20)
          (getSessionHistory ss sid @ map mk_message es)"
    by (rule addAll_history)
next
  assume l: "length es = 25"
  have "length (getSessionHistory Map.empty sid) \<le> 20" by (simp add: getSessionHistory_def)
  from addAll_history [OF this, of es] l
  show "getSessionHistory (addAll Map.empty sid es) sid = map mk_message (drop 5 es)"
    by (simp add: getSessionHistory_def drop_map)
qed

theorem session_cap_fifo_witness:
  "capped_store Map.empty \<and>
   length (map (\<lambda>n. (''t'', User, replicate n CHR ''a'')) [0..<25]) = 25 \<and>
   getSessionHistory
     (addAll Map.empty ''s'' (map (\<lambda>n. (''t'', User, replicate n CHR ''a'')) [0..<25])) ''s'' =
   map mk_message (drop 5 (map (\<lambda>n. (''t'', User, replicate n CHR ''a'')) [0..<25]))"
proof -
  let ?es = "map (\<lambda>n. (''t'', User, replicate n CHR ''a'')) [0..<25]"
  have c: "capped_store Map.empty" by (simp add: capped_store_def)
  have l: "length ?es = 25" by simp
  from session_cap_fifo [of "[]" Map.empty "''t''" "''s''" User "''m''" ?es] l
  have "getSessionHistory (addAll Map.empty ''s'' ?es) ''s'' = map mk_message (drop 5 ?es)"
    by blast
  with c l show ?thesis by blast
qed

subsection \<open>Similarity search\<close>

text \<open>
  C10. On an empty store \<^verbatim>\<open>searchSimilar\<close> returns the empty list, and the list of
  texts passed to the embedding capability is empty: it is not called, whatever the
  query, the count and the capability are.
\<close>

theorem searchSimilar_empty_store:
  "searchSimilar generateEmbedding [] query topK = ([], [])"
  by (simp add: searchSimilar_def)












subsection \<open>The orchestrator's turn\<close>

lemma slice_butlast: "slice 0 (Some (- 1)) xs = butlast xs"
  by (cases "xs = []") (auto simp: slice_def Let_def butlast_conv_take nat_diff_distrib' max_def)

lemma getRecentMessages_4:
  "getRecentMessages ss sid 4 = drop (length (getSessionHistory ss sid) - 4) (getSessionHistory ss sid)"
  using slice_last [of 4 "getSessionHistory ss sid"] by (simp add: getRecentMessages_def)

lemma chat_calls_history:
  "map (\<lambda>c. snd (snd c)) (chat_calls (processMessage env docs ss req)) =
     [butlast (getRecentMessages
        (addMessage (env_clock env 1) ss (am_session_id req) User (am_message req))
        (am_session_id req) 4)]"
  by (simp add: processMessage_def Let_def slice_butlast split: sum.splits)

lemma getSessionHistory_empty: "getSessionHistory Map.empty sid = []"
  by (simp add: getSessionHistory_def)

lemma example_session_history:
  "getSessionHistory (addMessage ''t1'' example_session ''s'' User ''m5'') ''s'' =
     map mk_message [(''a'', User, ''m1''), (''b'', Assistant, ''m2''), (''c'', User, ''m3''),
        (''d'', Assistant, ''m4''), (''t1'', User, ''m5'')]"
  by (simp add: example_session_def addMessage_history getSessionHistory_empty)

text \<open>
  A session holding m1 to m4 receives m5: five messages are in memory after the append,
  and the history given to the chat generation is m2, m3, m4, three messages and not
  the four that precede m5.
\<close>

theorem history_of_four_counterexample:
  "length (getSessionHistory (addMessage ''t1'' example_session ''s'' User ''m5'') ''s'') = 5 \<and>
   map (map msg_content \<circ> snd \<circ> snd)
     (chat_calls (processMessage (example_env True) [] example_session
        \<lparr>am_message = ''m5'', am_session_id = ''s''\<rparr>)) = [[''m2'', ''m3'', ''m4'']]"
proof -
  have "map (\<lambda>c. snd (snd c))
     (chat_calls (processMessage (example_env True) [] example_session
        \<lparr>am_message = ''m5'', am_session_id = ''s''\<rparr>)) =
     [map mk_message [(''b'', Assistant, ''m2''), (''c'', User, ''m3''), (''d'', Assistant, ''m4'')]]"
    by (simp add: chat_calls_history getRecentMessages_4 example_session_history example_env_def)
  then have "map (map msg_content) (map (\<lambda>c. snd (snd c))
     (chat_calls (processMessage (example_env True) [] example_session
        \<lparr>am_message = ''m5'', am_session_id = ''s''\<rparr>))) = [[''m2'', ''m3'', ''m4'']]"
    by (simp add: mk_message_def)
  then show ?thesis by (simp add: example_session_history comp_def)
qed


lemma length_four: "length xs = 4 \<Longrightarrow> \<exists>a b c d. xs = [a, b, c, d]"
  by (auto simp: eval_nat_numeral length_Suc_conv)

lemma last_four_butlast:
  assumes "4 \<le> length h"
  shows "\<exists>older a b c. h = older @ [a, b, c, last h] \<and> butlast (drop (length h - 4) h) = [a, b, c]"
proof -
  let ?xs = "drop (length h - 4) h"
  have "length ?xs = 4" using assms by simp
  then obtain a b c d where xs: "?xs = [a, b, c, d]" using length_four by blast
  have h: "h = take (length h - 4) h @ [a, b, c, d]"
    using xs append_take_drop_id [of "length h - 4" h] by simp
  then have "last h = d" by (metis last_ConsL last_ConsR last_appendR list.distinct(1))
  with h xs show ?thesis by (metis butlast.simps(2) butlast.simps(1) list.distinct(1))
qed

text \<open>
  C1 (amended). When the session holds at least 5 messages after the inbound user
  message is appended, the history passed to the chat generation is the last 4 messages
  of the session without the one just appended: the 3 messages immediately preceding
  the appended user message, in chronological order.
\<close>

theorem history_passed_to_chat:
  "5 \<le> length (getSessionHistory
            (addMessage (env_clock env 1) ss (am_session_id req) User (am_message req))
            (am_session_id req)) \<Longrightarrow>
   \<exists>older a b c.
     getSessionHistory
       (addMessage (env_clock env 1) ss (am_session_id req) User (am_message req))
       (am_session_id req) =
     older @ [a, b, c, \<lparr>msg_role = User, msg_content = am_message req,
                            msg_timestamp = env_clock env 1\<rparr>] \<and>
     map (\<lambda>c. snd (snd c)) (chat_calls (processMessage env docs ss req)) = [[a, b, c]]"
proof -
  let ?h = "getSessionHistory
            (addMessage (env_clock env 1) ss (am_session_id req) User (am_message req))
            (am_session_id req)"
  let ?m = "\<lparr>msg_role = User, msg_content = am_message req, msg_timestamp = env_clock env 1\<rparr>"
  assume len: "5 \<le> length ?h"
  have lst: "last ?h = ?m"
    by (simp add: addMessage_history mk_message_def)
  from len have "4 \<le> length ?h" by simp
  from last_four_butlast [OF this] obtain older a b c
    where h: "?h = older @ [a, b, c, last ?h]"
      and b: "butlast (drop (length ?h - 4) ?h) = [a, b, c]" by blast
  have "map (\<lambda>c. snd (snd c)) (chat_calls (processMessage env docs ss req)) = [[a, b, c]]"
    by (simp only: chat_calls_history getRecentMessages_4 b)
  with h lst show ?thesis by metis
qed

theorem history_passed_to_chat_witness:
  "5 \<le> length (getSessionHistory (addMessage ''t1'' example_session ''s'' User ''m5'') ''s'') \<and>
   (\<exists>older a b c.
     getSessionHistory (addMessage ''t1'' example_session ''s'' User ''m5'') ''s'' =
       older @ [a, b, c, \<lparr>msg_role = User, msg_content = ''m5'', msg_timestamp = ''t1''\<rparr>] \<and>
     map (\<lambda>c. snd (snd c))
       (chat_calls (processMessage (example_env True) [] example_session
          \<lparr>am_message = ''m5'', am_session_id = ''s''\<rparr>)) = [[a, b, c]])"
proof -
  have len: "5 \<le> length (getSessionHistory
      (addMessage (env_clock (example_env True) 1) example_session
         (am_session_id \<lparr>am_message = ''m5'', am_session_id = ''s''\<rparr>) User
         (am_message \<lparr>am_message = ''m5'', am_session_id = ''s''\<rparr>))
      (am_session_id \<lparr>am_message = ''m5'', am_session_id = ''s''\<rparr>))"
    by (simp add: example_env_def example_session_history)
  from history_passed_to_chat [OF len, of "[]"] len show ?thesis
    by (simp add: example_env_def)
qed


lemma chat_calls_single:
  "\<exists>sp h. chat_calls (processMessage env docs ss req) = [(sp, am_message req, h)]"
  by (simp add: processMessage_def Let_def split: sum.splits)

lemma processMessage_failed:
  "chat_calls (processMessage env docs ss req) = [(sp, m, h)] \<Longrightarrow>
   generateChatCompletion env sp m h = Inl e \<Longrightarrow>
   response (processMessage env docs ss req) =
     \<lparr>reply = apology, resp_session_id = am_session_id req, timestamp = env_clock env 0,
      plugins_used = [], context_retrieved = False\<rparr> \<and>
   store (processMessage env docs ss req) =
     addMessage (env_clock env 1) ss (am_session_id req) User (am_message req)"
  by (auto simp: processMessage_def Let_def split: sum.splits)

lemma processMessage_answered:
  "chat_calls (processMessage env docs ss req) = [(sp, m, h)] \<Longrightarrow>
   generateChatCompletion env sp m h = Inr ai \<Longrightarrow>
   reply (response (processMessage env docs ss req)) = ai \<and>
   plugins_used (response (processMessage env docs ss req)) =
     map plugin_name (executePlugins env
       \<lparr>ctx_query = am_message req, ctx_user_message = am_message req,
        ctx_session_id = am_session_id req\<rparr>) \<and>
   store (processMessage env docs ss req) =
     addMessage (env_clock env 2)
       (addMessage (env_clock env 1) ss (am_session_id req) User (am_message req))
       (am_session_id req) Assistant ai"
  by (auto simp: processMessage_def Let_def split: sum.splits)

lemma example_env_fails:
  "generateChatCompletion (example_env False) sp m h =
     Inl (Error ''Failed to generate response from Gemini'')"
  by (simp add: generateChatCompletion_def example_env_def Let_def)

text \<open>
  C2 (amended). When the chat generation of a turn fails, the response carries the fixed
  apology as its reply, with no plugin names and no retrieved context, and the error is
  not propagated; the session memory is left as it was after the user message was
  appended, so that its last message is that user message.
\<close>

theorem chat_failure_apology:
  "chat_calls (processMessage env docs ss req) = [(sp, m, h)] \<Longrightarrow>
   generateChatCompletion env sp m h = Inl e \<Longrightarrow>
   reply (response (processMessage env docs ss req)) = apology \<and>
   plugins_used (response (processMessage env docs ss req)) = [] \<and>
   \<not> context_retrieved (response (processMessage env docs ss req)) \<and>
   store (processMessage env docs ss req) =
     addMessage (env_clock env 1) ss (am_session_id req) User (am_message req) \<and>
   last (getSessionHistory (store (processMessage env docs ss req)) (am_session_id req)) =
     \<lparr>msg_role = User, msg_content = am_message req, msg_timestamp = env_clock env 1\<rparr>"
proof -
  assume c: "chat_calls (processMessage env docs ss req) = [(sp, m, h)]"
    and f: "generateChatCompletion env sp m h = Inl e"
  from processMessage_failed [OF c f] show ?thesis
    by (simp add: addMessage_history mk_message_def)
qed

text \<open>
  On the empty store with a failing chat provider, the turn answers with the apology and
  the session then holds the user message alone: no assistant message was appended.
\<close>

theorem fallback_not_appended_counterexample:
  "reply (response (processMessage (example_env False) [] Map.empty
      \<lparr>am_message = ''hello'', am_session_id = ''s''\<rparr>)) = apology \<and>
   map msg_role (getSessionHistory (store (processMessage (example_env False) [] Map.empty
      \<lparr>am_message = ''hello'', am_session_id = ''s''\<rparr>)) ''s'') = [User]"
proof -
  let ?T = "processMessage (example_env False) [] Map.empty
      \<lparr>am_message = ''hello'', am_session_id = ''s''\<rparr>"
  obtain sp h where c: "chat_calls ?T = [(sp, ''hello'', h)]"
    using chat_calls_single [of "example_env False" "[]" Map.empty
        "\<lparr>am_message = ''hello'', am_session_id = ''s''\<rparr>"] by auto
  from processMessage_failed [OF c example_env_fails] show ?thesis
    by (simp add: addMessage_history getSessionHistory_empty mk_message_def)
qed

theorem chat_failure_apology_witness:
  "reply (response (processMessage (example_env False) [] example_session
      \<lparr>am_message = ''m5'', am_session_id = ''s''\<rparr>)) = apology \<and>
   map msg_content (getSessionHistory (store (processMessage (example_env False) [] example_session
      \<lparr>am_message = ''m5'', am_session_id = ''s''\<rparr>)) ''s'') =
     [''m1'', ''m2'', ''m3'', ''m4'', ''m5'']"
proof -
  let ?T = "processMessage (example_env False) [] example_session
      \<lparr>am_message = ''m5'', am_session_id = ''s''\<rparr>"
  obtain sp h where c: "chat_calls ?T = [(sp, ''m5'', h)]"
    using chat_calls_single [of "example_env False" "[]" example_session
        "\<lparr>am_message = ''m5'', am_session_id = ''s''\<rparr>"] by auto
  from chat_failure_apology [OF c example_env_fails] show ?thesis
    by (simp add: example_session_history example_env_def mk_message_def)
qed

lemma msg_math: "MathPlugin_shouldExecute ''What is 12 * 4?''"
  by code_simp

lemma msg_weather: "\<not> WeatherPlugin_shouldExecute ''What is 12 * 4?''"
  by code_simp

lemma msg_extract: "extractExpression ''What is 12 * 4?'' = Some ''12 * 4''"
  by code_simp

lemma msg_clean: "cleanExpression ''12 * 4'' = ''12*4''"
  by code_simp

lemma msg_eval: "evaluate ''12*4'' = Inr 48"
  by code_simp

lemma msg_execute:
  "ctx_user_message context = ''What is 12 * 4?'' \<Longrightarrow>
   MathPlugin_execute context =
     \<lparr>plugin_name = ''math'',
      pr_result = MathPayload \<lparr>expression = ''12*4'', mr_result = 48, mr_success = True,
        mr_error = None\<rparr>,
      pr_success = True, pr_error = None\<rparr>"
  by (simp add: MathPlugin_execute_def msg_extract msg_clean msg_eval)

lemma msg_plugins:
  "ctx_user_message context = ''What is 12 * 4?'' \<Longrightarrow>
   map plugin_name (executePlugins env context) = [''math'']"
  by (simp add: executePlugins_def msg_math msg_weather msg_execute)

lemma example_env_answers:
  "generateChatCompletion (example_env True) sp m h = Inr ''fine''"
  by (simp add: generateChatCompletion_def example_env_def Let_def)

text \<open>
  C9 (amended). For the message "What is 12 * 4?" the arithmetic plugin's trigger is
  true, extraction gives "12 * 4" and sanitization "12*4", evaluation gives 48 as a
  success outcome, the weather plugin's trigger is false and the router runs the
  arithmetic plugin alone; when the chat generation of the turn succeeds, the response
  has pluginsUsed equal to ["math"], for any session memory, the empty one included.
\<close>

theorem twelve_times_four:
  "MathPlugin_shouldExecute ''What is 12 * 4?'' \<and>
   extractExpression ''What is 12 * 4?'' = Some ''12 * 4'' \<and>
   cleanExpression ''12 * 4'' = ''12*4'' \<and>
   evaluate ''12*4'' = Inr 48 \<and>
   MathPlugin_execute \<lparr>ctx_query = ''What is 12 * 4?'', ctx_user_message = ''What is 12 * 4?'',
       ctx_session_id = sid\<rparr> =
     \<lparr>plugin_name = ''math'',
      pr_result = MathPayload \<lparr>expression = ''12*4'', mr_result = 48, mr_success = True,
        mr_error = None\<rparr>,
      pr_success = True, pr_error = None\<rparr> \<and>
   \<not> WeatherPlugin_shouldExecute ''What is 12 * 4?'' \<and>
   map plugin_name (executePlugins env
       \<lparr>ctx_query = ''What is 12 * 4?'', ctx_user_message = ''What is 12 * 4?'',
        ctx_session_id = sid\<rparr>) = [''math''] \<and>
   (chat_calls (processMessage env docs ss
        \<lparr>am_message = ''What is 12 * 4?'', am_session_id = sid\<rparr>) = [(sp, m, h)] \<longrightarrow>
    generateChatCompletion env sp m h = Inr ai \<longrightarrow>
    plugins_used (response (processMessage env docs ss
        \<lparr>am_message = ''What is 12 * 4?'', am_session_id = sid\<rparr>)) = [''math''])"
proof (intro conjI impI)
  assume c: "chat_calls (processMessage env docs ss
        \<lparr>am_message = ''What is 12 * 4?'', am_session_id = sid\<rparr>) = [(sp, m, h)]"
    and a: "generateChatCompletion env sp m h = Inr ai"
  from processMessage_answered [OF c a]
  show "plugins_used (response (processMessage env docs ss
        \<lparr>am_message = ''What is 12 * 4?'', am_session_id = sid\<rparr>)) = [''math'']"
    by (simp add: msg_plugins)
qed (simp_all add: msg_math msg_weather msg_extract msg_clean msg_eval msg_execute msg_plugins)

theorem twelve_times_four_witness:
  "plugins_used (response (processMessage (example_env True) [] Map.empty
      \<lparr>am_message = ''What is 12 * 4?'', am_session_id = ''s''\<rparr>)) = [''math'']"
proof -
  let ?T = "processMessage (example_env True) [] Map.empty
      \<lparr>am_message = ''What is 12 * 4?'', am_session_id = ''s''\<rparr>"
  obtain sp h where c: "chat_calls ?T = [(sp, ''What is 12 * 4?'', h)]"
    using chat_calls_single [of "example_env True" "[]" Map.empty
        "\<lparr>am_message = ''What is 12 * 4?'', am_session_id = ''s''\<rparr>"] by auto
  from twelve_times_four [of "''s''" "example_env True" "[]" Map.empty sp "''What is 12 * 4?''" h "''fine''"]
    c example_env_answers [of sp "''What is 12 * 4?''" h]
  show ?thesis by blast
qed

text \<open>
  With a failing chat provider and empty history the same message gives a response
  whose pluginsUsed is empty.
\<close>

theorem twelve_times_four_counterexample:
  "plugins_used (response (processMessage (example_env False) [] Map.empty
      \<lparr>am_message = ''What is 12 * 4?'', am_session_id = ''s''\<rparr>)) = []"
proof -
  let ?T = "processMessage (example_env False) [] Map.empty
      \<lparr>am_message = ''What is 12 * 4?'', am_session_id = ''s''\<rparr>"
  obtain sp h where c: "chat_calls ?T = [(sp, ''What is 12 * 4?'', h)]"
    using chat_calls_single [of "example_env False" "[]" Map.empty
        "\<lparr>am_message = ''What is 12 * 4?'', am_session_id = ''s''\<rparr>"] by auto
  from processMessage_failed [OF c example_env_fails] show ?thesis by simp
qed

subsection \<open>Chunker\<close>

lemma last_occurrence_skip:
  "pat \<noteq> [] \<Longrightarrow> hd pat \<noteq> a \<Longrightarrow> i + n \<le> Suc fromIndex \<Longrightarrow>
   last_occurrence pat (replicate n a @ rest) i fromIndex best =
   last_occurrence pat rest (i + n) fromIndex best"
proof (induction n arbitrary: i)
  case 0
  then show ?case by simp
next
  case (Suc n)
  have "take (length pat) (a # replicate n a @ rest) \<noteq> pat"
    using Suc.prems(1,2) by (cases pat) auto
  moreover have "\<not> fromIndex < i" using Suc.prems(3) by simp
  moreover have "Suc i + n \<le> Suc fromIndex" using Suc.prems(3) by simp
  ultimately show ?case using Suc.IH [of "Suc i"] Suc.prems(1,2) by simp
qed

lemma trim_id: "s \<noteq> [] \<Longrightarrow> \<not> is_space (hd s) \<Longrightarrow> \<not> is_space (last s) \<Longrightarrow> trim s = s"
proof -
  assume a: "s \<noteq> []" "\<not> is_space (hd s)" "\<not> is_space (last s)"
  then have "dropWhile is_space s = s" by (cases s) auto
  moreover have "dropWhile is_space (rev s) = rev s"
    using a by (cases "rev s") (auto simp: last_rev [symmetric] hd_rev)
  ultimately show ?thesis by (simp add: trim_def)
qed

lemma long_window_end: "window_end (replicate 1000 CHR ''a'' @ ''.b'') 0 = 1001"
proof -
  have 1: "lastIndexOf ''.'' (replicate 1000 CHR ''a'' @ ''.b'') 1000 = 1000"
    unfolding lastIndexOf_def
    using last_occurrence_skip [of "''.''" "CHR ''a''" 0 1000 1000 "''.b''" "- 1"]
    by simp
  have 2: "lastIndexOf (bsn @ bsn) (replicate 1000 CHR ''a'' @ ''.b'') 1000 = - 1"
    unfolding lastIndexOf_def
    using last_occurrence_skip [of "bsn @ bsn" "CHR ''a''" 0 1000 1000 "''.b''" "- 1"]
    by (simp add: bsn_def)
  show ?thesis
    by (simp add: window_end_def CHUNK_SIZE_def 1 2 Let_def)
qed

lemma long_first_chunk:
  "chunk_at (replicate 1000 CHR ''a'' @ ''.b'') 0 = replicate 1000 CHR ''a'' @ ''.''"
proof -
  have "slice 0 (Some 1001) (replicate 1000 CHR ''a'' @ ''.b'') = replicate 1000 CHR ''a'' @ ''.''"
    by (simp add: slice_def Let_def)
  moreover have "trim (replicate 1000 CHR ''a'' @ ''.'') = replicate 1000 CHR ''a'' @ ''.''"
    by (rule trim_id) (simp_all add: is_space_def hd_append)
  ultimately show ?thesis by (simp add: chunk_at_def long_window_end)
qed

lemma long_second:
  "window_end (replicate 1000 CHR ''a'' @ ''.b'') 1001 = 2001 \<and>
   chunk_at (replicate 1000 CHR ''a'' @ ''.b'') 1001 = ''b''"
proof -
  have w: "window_end (replicate 1000 CHR ''a'' @ ''.b'') 1001 = 2001"
    by (simp add: window_end_def CHUNK_SIZE_def Let_def)
  have "slice 1001 (Some 2001) (replicate 1000 CHR ''a'' @ ''.b'') = ''b''"
    by (simp add: slice_def Let_def)
  moreover have "trim ''b'' = ''b''" by (rule trim_id) (simp_all add: is_space_def)
  ultimately show ?thesis by (simp add: chunk_at_def w)
qed

text \<open>
  C6. Chunks are specified to have at most 1000 characters. On the text of 1000
  letters a, a full stop and a letter b, the full stop at index 1000 is accepted as the
  boundary, the window ends at 1001 and the first chunk has 1001 characters.
\<close>

theorem chunk_exceeds_max:
  "chunkText (replicate 1000 CHR ''a'' @ ''.b'') = [replicate 1000 CHR ''a'' @ ''.'', ''b''] \<and>
   map length (chunkText (replicate 1000 CHR ''a'' @ ''.b'')) = [1001, 1]"
proof -
  let ?t = "replicate 1000 CHR ''a'' @ ''.b''"
  have n0: "next_start ?t 0 = 1001"
    by (simp add: next_start_def long_window_end CHUNK_SIZE_def CHUNK_OVERLAP_def)
  have n1: "next_start ?t 1001 = 2001"
    by (simp add: next_start_def long_second CHUNK_SIZE_def CHUNK_OVERLAP_def)
  have s2: "chunk_loop ?t 2001 cs = cs" for cs
    by (subst chunk_loop.simps) simp
  have s1: "chunk_loop ?t 1001 cs = cs @ [''b'']" for cs
    by (subst chunk_loop.simps) (simp add: n1 long_second s2)
  have s0: "chunk_loop ?t 0 [] = [replicate 1000 CHR ''a'' @ ''.'', ''b'']"
    by (subst chunk_loop.simps) (simp add: n0 long_first_chunk s1)
  then show ?thesis by (simp add: chunkText_def)
qed

lemma next_start_advance: "start + 800 \<le> next_start txt start"
  by (simp add: next_start_def CHUNK_SIZE_def CHUNK_OVERLAP_def)

lemma chunk_fuel_enough:
  "length txt \<le> start + 800 * fuel \<Longrightarrow>
   chunk_fuel fuel txt start chunks = Some (chunk_loop txt start chunks)"
proof (induction fuel arbitrary: start chunks)
  case 0
  then show ?case by (subst chunk_loop.simps, subst chunk_fuel.simps) simp
next
  case (Suc n)
  show ?case
  proof (cases "start < length txt")
    case True
    have "length txt \<le> next_start txt start + 800 * n"
      using Suc.prems next_start_advance [of start "txt"] by simp
    from Suc.IH [OF this] True show ?thesis
      by (subst chunk_loop.simps, subst chunk_fuel.simps) simp
  next
    case False
    then show ?thesis by (subst chunk_loop.simps, subst chunk_fuel.simps) simp
  qed
qed

text \<open>
  C7. The next scan position is the maximum of the window's end and the start plus
  1000 - 200, which is at least 800 past the start and so strictly past it; and the
  loop, given length div 800 + 1 iterations, returns the chunks for every text.
\<close>

theorem chunker_progress:
  "next_start txt start = max (start + 1000 - 200) (window_end txt start) \<and>
   start + 800 \<le> next_start txt start \<and>
   start < next_start txt start \<and>
   chunk_fuel (length txt div 800 + 1) txt 0 [] = Some (chunkText txt)"
proof -
  have "length txt \<le> 0 + 800 * (length txt div 800 + 1)"
    using div_mult_mod_eq [of "length txt" 800] pos_mod_bound [of 800 "int (length txt)"]
    by (simp add: dividend_less_times_div less_imp_le mult.commute)
  from chunk_fuel_enough [OF this]
  have "chunk_fuel (length txt div 800 + 1) txt 0 [] = Some (chunkText txt)"
    by (simp add: chunkText_def)
  moreover have "start + 800 \<le> next_start txt start" by (rule next_start_advance)
  ultimately show ?thesis
    by (simp add: next_start_def CHUNK_SIZE_def CHUNK_OVERLAP_def)
qed

lemma last_dropWhile: "dropWhile P xs \<noteq> [] \<Longrightarrow> last (dropWhile P xs) = last xs"
  by (induction xs) (auto split: if_splits)

lemma trim_ends:
  assumes "trim s \<noteq> []"
  shows "\<not> is_space (hd (trim s)) \<and> \<not> is_space (last (trim s))"
proof -
  let ?a = "dropWhile is_space s"
  let ?b = "dropWhile is_space (rev ?a)"
  have b: "?b \<noteq> []" using assms by (simp add: trim_def)
  have a: "?a \<noteq> []"
  proof
    assume "?a = []"
    with b show False by (metis dropWhile.simps(1) rev.simps(1))
  qed
  have "last (trim s) = hd ?b" using b by (simp add: trim_def last_rev)
  moreover have "\<not> is_space (hd ?b)" using b by (rule hd_dropWhile)
  moreover have "hd (trim s) = last ?b" using b by (simp add: trim_def hd_rev)
  moreover have "last ?b = last (rev ?a)" using b by (rule last_dropWhile)
  moreover have "last (rev ?a) = hd ?a" using a by (simp add: last_rev)
  moreover have "\<not> is_space (hd ?a)" using a by (rule hd_dropWhile)
  ultimately show ?thesis by simp
qed

lemma length_trim: "length (trim s) \<le> length s"
proof -
  have "length (dropWhile is_space (rev (dropWhile is_space s))) \<le> length (rev (dropWhile is_space s))"
    by (rule length_dropWhile_le)
  also have "\<dots> \<le> length s" by (simp add: length_dropWhile_le)
  finally show ?thesis by (simp add: trim_def)
qed

lemma trim_nonempty: "\<exists>x\<in>set s. \<not> is_space x \<Longrightarrow> trim s \<noteq> []"
proof -
  assume "\<exists>x\<in>set s. \<not> is_space x"
  then have a: "dropWhile is_space s \<noteq> []" by (simp add: dropWhile_eq_Nil_conv)
  then have "\<not> is_space (hd (dropWhile is_space s))" by (rule hd_dropWhile)
  moreover have "hd (dropWhile is_space s) \<in> set (rev (dropWhile is_space s))" using a by simp
  ultimately have "dropWhile is_space (rev (dropWhile is_space s)) \<noteq> []"
    by (auto simp: dropWhile_eq_Nil_conv simp del: set_rev)
  then show ?thesis by (simp add: trim_def)
qed

lemma last_occurrence_bound:
  "best \<le> int fromIndex \<Longrightarrow> last_occurrence pat xs i fromIndex best \<le> int fromIndex"
  by (induction xs arbitrary: i best) auto

lemma window_end_bound: "window_end txt start \<le> start + 1001"
proof -
  have "lastIndexOf ''.'' txt (start + 1000) \<le> int (start + 1000)"
    using last_occurrence_bound [of "- 1" "start + 1000" "''.''" "txt" 0]
    by (simp add: lastIndexOf_def)
  moreover have "lastIndexOf (bsn @ bsn) txt (start + 1000) \<le> int (start + 1000)"
    using last_occurrence_bound [of "- 1" "start + 1000" "bsn @ bsn" "txt" 0]
    by (simp add: lastIndexOf_def)
  ultimately show ?thesis
    by (auto simp: window_end_def CHUNK_SIZE_def Let_def)
qed

lemma length_slice: "length (slice (int a) (Some (int b)) xs) \<le> b - a"
  by (auto simp: slice_def Let_def min_def)

lemma chunk_at_length: "length (chunk_at txt start) \<le> 1001"
proof -
  have "length (chunk_at txt start) \<le> window_end txt start - start"
    unfolding chunk_at_def using length_trim length_slice le_trans by blast
  then show ?thesis using window_end_bound [of "txt" start] by simp
qed

lemma chunk_at_good: "0 < length (chunk_at txt start) \<Longrightarrow> good_chunk (chunk_at txt start)"
  using trim_ends [of "slice (int start) (Some (int (window_end txt start))) txt"]
    chunk_at_length [of "txt" start]
  by (simp add: good_chunk_def chunk_at_def)

lemma chunk_loop_good:
  "\<forall>c\<in>set chunks. good_chunk c \<Longrightarrow> \<forall>c\<in>set (chunk_loop txt start chunks). good_chunk c"
proof (induction "txt" start chunks rule: chunk_loop.induct)
  case (1 t start chunks)
  show ?case
  proof (cases "start < length t")
    case True
    let ?cs = "if length (chunk_at t start) > 0 then chunks @ [chunk_at t start] else chunks"
    have "\<forall>c\<in>set ?cs. good_chunk c" using "1.prems" chunk_at_good [of t start] by auto
    from "1.IH" [OF True this] True show ?thesis
      by (subst chunk_loop.simps) simp
  next
    case False
    then show ?thesis using "1.prems" by (subst chunk_loop.simps) simp
  qed
qed

lemma chunkText_short:
  assumes "length txt < 1000" and "\<exists>x\<in>set txt. \<not> is_space x"
  shows "chunkText txt = [trim txt]"
proof -
  have pos: "0 < length txt" using assms(2) by (cases "txt") auto
  have w: "window_end txt 0 = 1000" using assms(1) by (simp add: window_end_def CHUNK_SIZE_def)
  have "slice 0 (Some 1000) txt = txt" using assms(1) by (simp add: slice_def Let_def)
  then have c: "chunk_at txt 0 = trim txt" by (simp add: chunk_at_def w)
  have ne: "trim txt \<noteq> []" using assms(2) by (rule trim_nonempty)
  have n: "next_start txt 0 = 1000" by (simp add: next_start_def w CHUNK_SIZE_def CHUNK_OVERLAP_def)
  have "chunk_loop txt 1000 [trim txt] = [trim txt]"
    using assms(1) by (subst chunk_loop.simps) simp
  then have "chunk_loop txt 0 [] = [trim txt]"
    using pos ne by (subst chunk_loop.simps) (simp add: c n)
  then show ?thesis by (simp add: chunkText_def)
qed

text \<open>
  What does hold of the chunks: each is non-empty, starts and ends with a character that
  is not white space, and has at most 1001 characters; and a text shorter than 1000
  characters with a character that is not white space gives the one chunk that is the
  trimmed text.
\<close>

lemma chunkText_chunks:
  "(\<forall>c\<in>set (chunkText txt). good_chunk c) \<and>
   (length txt < 1000 \<longrightarrow> (\<exists>x\<in>set txt. \<not> is_space x) \<longrightarrow> chunkText txt = [trim txt])"
  using chunk_loop_good [of "[]" "txt" 0] chunkText_short [of "txt"]
  by (simp add: chunkText_def)

subsection \<open>Change detection\<close>

lemma hasFileChanged_iff:
  "hasFileChanged fs filePath metadata =
     (getFileHash fs filePath \<noteq> fileHash metadata \<or>
      fs_mtimeMs fs filePath \<noteq> Inr (lastModified metadata))"
  by (auto simp: hasFileChanged_def Let_def split: sum.splits)

lemma classify_files_filter:
  "classify_files fs d em names acc =
     \<lparr>newFiles = newFiles acc @ map (fs_join fs d) (filter (file_is_new em) names),
      changedFiles = changedFiles acc @ map (fs_join fs d) (filter (file_is_changed fs d em) names),
      unchangedFiles = unchangedFiles acc @
        map (fs_join fs d) (filter (file_is_unchanged fs d em) names)\<rparr>"
proof (induction names arbitrary: acc)
  case Nil
  then show ?case by simp
next
  case (Cons name names)
  show ?case
  proof (cases "em name")
    case None
    then show ?thesis
      by (simp add: Cons.IH Let_def file_is_new_def file_is_changed_def file_is_unchanged_def)
  next
    case (Some metadata)
    then show ?thesis
      by (simp add: Cons.IH Let_def file_is_new_def file_is_changed_def file_is_unchanged_def
          hasFileChanged_iff)
  qed
qed

lemma one_class:
  "(file_is_new em name \<and> \<not> file_is_changed fs d em name \<and> \<not> file_is_unchanged fs d em name) \<or>
   (\<not> file_is_new em name \<and> file_is_changed fs d em name \<and> \<not> file_is_unchanged fs d em name) \<or>
   (\<not> file_is_new em name \<and> \<not> file_is_changed fs d em name \<and> file_is_unchanged fs d em name)"
  by (auto simp: file_is_new_def file_is_changed_def file_is_unchanged_def split: option.splits)

text \<open>
  C8. When the directory can be listed, the three lists are the paths of its markdown
  files that are new, changed and unchanged, in directory order; a file with metadata
  is changed exactly when its current content hash differs from the stored hash or its
  modification time is not the stored one, either alone sufficing; and every file name
  is in exactly one of the three classes.
\<close>

theorem classification:
  "fs_readdir fs d = Inr files \<Longrightarrow>
   getFilesToProcess fs d em =
     Inr \<lparr>newFiles = map (fs_join fs d)
             (filter (file_is_new em) (filter (\<lambda>file. endsWith file ''.md'') files)),
          changedFiles = map (fs_join fs d)
             (filter (file_is_changed fs d em) (filter (\<lambda>file. endsWith file ''.md'') files)),
          unchangedFiles = map (fs_join fs d)
             (filter (file_is_unchanged fs d em) (filter (\<lambda>file. endsWith file ''.md'') files))\<rparr> \<and>
   hasFileChanged fs filePath metadata =
     (getFileHash fs filePath \<noteq> fileHash metadata \<or>
      fs_mtimeMs fs filePath \<noteq> Inr (lastModified metadata)) \<and>
   ((file_is_new em name \<and> \<not> file_is_changed fs d em name \<and> \<not> file_is_unchanged fs d em name) \<or>
    (\<not> file_is_new em name \<and> file_is_changed fs d em name \<and> \<not> file_is_unchanged fs d em name) \<or>
    (\<not> file_is_new em name \<and> \<not> file_is_changed fs d em name \<and> file_is_unchanged fs d em name))"
proof (intro conjI)
  assume "fs_readdir fs d = Inr files"
  then show "getFilesToProcess fs d em =
     Inr \<lparr>newFiles = map (fs_join fs d)
             (filter (file_is_new em) (filter (\<lambda>file. endsWith file ''.md'') files)),
          changedFiles = map (fs_join fs d)
             (filter (file_is_changed fs d em) (filter (\<lambda>file. endsWith file ''.md'') files)),
          unchangedFiles = map (fs_join fs d)
             (filter (file_is_unchanged fs d em) (filter (\<lambda>file. endsWith file ''.md'') files))\<rparr>"
    by (simp add: getFilesToProcess_def classify_files_filter Let_def)
next
  show "hasFileChanged fs filePath metadata =
     (getFileHash fs filePath \<noteq> fileHash metadata \<or>
      fs_mtimeMs fs filePath \<noteq> Inr (lastModified metadata))"
    by (rule hasFileChanged_iff)
next
  show "(file_is_new em name \<and> \<not> file_is_changed fs d em name \<and> \<not> file_is_unchanged fs d em name) \<or>
    (\<not> file_is_new em name \<and> file_is_changed fs d em name \<and> \<not> file_is_unchanged fs d em name) \<or>
    (\<not> file_is_new em name \<and> \<not> file_is_changed fs d em name \<and> file_is_unchanged fs d em name)"
    by (rule one_class)
qed

theorem classification_witness:
  "fs_readdir example_fs ''docs'' = Inr [''a.md'', ''b.md'', ''notes.txt'', ''c.md'', ''d.md''] \<and>
   getFilesToProcess example_fs ''docs'' example_metadata =
     Inr \<lparr>newFiles = [''docs/a.md''], changedFiles = [''docs/b.md'', ''docs/d.md''],
          unchangedFiles = [''docs/c.md'']\<rparr>"
proof -
  have r: "fs_readdir example_fs ''docs'' = Inr [''a.md'', ''b.md'', ''notes.txt'', ''c.md'', ''d.md'']"
    by (simp add: example_fs_def)
  from classification [OF r, of example_metadata]
  have "getFilesToProcess example_fs ''docs'' example_metadata =
     Inr \<lparr>newFiles = map (fs_join example_fs ''docs'')
             (filter (file_is_new example_metadata)
               (filter (\<lambda>file. endsWith file ''.md'') [''a.md'', ''b.md'', ''notes.txt'', ''c.md'', ''d.md''])),
          changedFiles = map (fs_join example_fs ''docs'')
             (filter (file_is_changed example_fs ''docs'' example_metadata)
               (filter (\<lambda>file. endsWith file ''.md'') [''a.md'', ''b.md'', ''notes.txt'', ''c.md'', ''d.md''])),
          unchangedFiles = map (fs_join example_fs ''docs'')
             (filter (file_is_unchanged example_fs ''docs'' example_metadata)
               (filter (\<lambda>file. endsWith file ''.md'') [''a.md'', ''b.md'', ''notes.txt'', ''c.md'', ''d.md'']))\<rparr>"
    by blast
  then show ?thesis
    by (simp add: r endsWith_def file_is_new_def file_is_changed_def file_is_unchanged_def
        example_metadata_def example_fs_def getFileHash_def)
qed

end
